theory Spec2Isabelle
  imports Complex_Main
begin

section \<open>Arrays\<close>

text \<open>
  A numpy array of a fixed shape is a function from its index set \<open>'p\<close> to its entries;
  arithmetic between arrays of one shape is pointwise.  Floats are read as reals.
\<close>

type_synonym 'p arr = "'p \<Rightarrow> real"

definition zeros_like :: "'p arr \<Rightarrow> 'p arr" where
  "zeros_like r = (\<lambda>p. 0)"

section \<open>The mode library: \<open>core/halo_free_decay_modes.py\<close>\<close>

text \<open>
  \<open>jv\<close> is scipy's Bessel function of the first kind, \<open>jv order x\<close>; it is a parameter of
  every mode function.  The two masked assignments \<open>Q[r<=1.] = ...\<close>, \<open>Q[r>1.] = ...\<close> fill
  every entry exactly once, by the branch its radius selects.  A float exponent is \<open>powr\<close>
  (the radius is positive on the domain), an integer exponent is \<open>^\<close>.
\<close>

definition radial_Q :: "(real \<Rightarrow> real \<Rightarrow> real) \<Rightarrow> real \<Rightarrow> real \<Rightarrow> real \<Rightarrow> real \<Rightarrow> real" where
  "radial_Q jv order expo k r =
     (if r \<le> 1 then r powr (- 0.5) * jv order (k * r) else r powr expo * jv order k)"

definition get_B_a_1 ::
  "(real \<Rightarrow> real \<Rightarrow> real) \<Rightarrow> 'p arr \<Rightarrow> 'p arr \<Rightarrow> 'p arr \<Rightarrow> real \<Rightarrow> real
     \<Rightarrow> 'p arr \<times> 'p arr \<times> 'p arr" where
  "get_B_a_1 jv r theta phi C k =
     (let Q = (\<lambda>p. radial_Q jv (3 / 2) (- 2) k (r p));
          Br = (\<lambda>p. C * (2 / r p) * Q p * cos (theta p));
          X = (\<lambda>p. if r p \<le> 1
                 then (let y = k * r p in
                       sqrt (2 / pi) * (y ^ 2 * sin y - sin y + y * cos y)
                         / (k powr (- 0.5) * y ^ 2))
                 else - 1 * r p powr (- 2) * jv (3 / 2) k);
          Btheta = (\<lambda>p. C * (- sin (theta p) / r p) * X p);
          Bphi = zeros_like r
      in (Br, Btheta, Bphi))"

text \<open>
  The second antisymmetric mode.  Its auxiliary \<open>X\<close> is given by name on each side of the
  unit sphere, and so is the formula of the polar component.
\<close>

definition X_a_2_interior :: "real \<Rightarrow> real \<Rightarrow> real" where
  "X_a_2_interior k r =
     (let y = k * r; siny = sin y; cosy = cos y;
          A = 15 * siny / y ^ 3 - 15 * cosy / y ^ 2 - 6 * siny / y + cosy;
          B = - 45 * siny / y ^ 3 / r + 45 * cosy / y ^ 2 / r
              + 21 * siny / y / r - k * siny - 6 * siny / r
      in A / sqrt (2 * pi * r * y)
         - k * sqrt r * A / sqrt (2 * pi) / y powr (3 / 2)
         + sqrt (2 / pi) * B / sqrt k)"

definition X_a_2_exterior :: "(real \<Rightarrow> real \<Rightarrow> real) \<Rightarrow> real \<Rightarrow> real \<Rightarrow> real" where
  "X_a_2_exterior jv k r = - 3 * jv (7 / 2) k * inverse (r ^ 4)"

definition Btheta_a_2 :: "real \<Rightarrow> real \<Rightarrow> real \<Rightarrow> real \<Rightarrow> real" where
  "Btheta_a_2 C theta r X = C * (- sin theta / r) * X * (5 * cos theta ^ 2 - 1)"

definition get_B_a_2 ::
  "(real \<Rightarrow> real \<Rightarrow> real) \<Rightarrow> 'p arr \<Rightarrow> 'p arr \<Rightarrow> 'p arr \<Rightarrow> real \<Rightarrow> real
     \<Rightarrow> 'p arr \<times> 'p arr \<times> 'p arr" where
  "get_B_a_2 jv r theta phi C k =
     (let Q = (\<lambda>p. radial_Q jv (7 / 2) (- 4) k (r p));
          Br = (\<lambda>p. C * (2 / r p) * Q p * cos (theta p) * (5 * cos (2 * theta p) - 1));
          X = (\<lambda>p. if r p \<le> 1 then X_a_2_interior k (r p) else X_a_2_exterior jv k (r p));
          Btheta = (\<lambda>p. Btheta_a_2 C (theta p) (r p) (X p));
          Bphi = zeros_like r
      in (Br, Btheta, Bphi))"

definition get_B_a_3 ::
  "(real \<Rightarrow> real \<Rightarrow> real) \<Rightarrow> 'p arr \<Rightarrow> 'p arr \<Rightarrow> 'p arr \<Rightarrow> real \<Rightarrow> real
     \<Rightarrow> 'p arr \<times> 'p arr \<times> 'p arr" where
  "get_B_a_3 jv r theta phi C k =
     (let Br = zeros_like r;
          Btheta = zeros_like r;
          Q = (\<lambda>p. radial_Q jv (5 / 2) (- 3) k (r p));
          Bphi = (\<lambda>p. C * Q p * sin (theta p) * cos (theta p))
      in (Br, Btheta, Bphi))"

definition get_B_a_4 ::
  "(real \<Rightarrow> real \<Rightarrow> real) \<Rightarrow> 'p arr \<Rightarrow> 'p arr \<Rightarrow> 'p arr \<Rightarrow> real \<Rightarrow> real
     \<Rightarrow> 'p arr \<times> 'p arr \<times> 'p arr" where
  "get_B_a_4 jv r theta phi C k = get_B_a_1 jv r theta phi C k"

definition get_B_s_1 ::
  "(real \<Rightarrow> real \<Rightarrow> real) \<Rightarrow> 'p arr \<Rightarrow> 'p arr \<Rightarrow> 'p arr \<Rightarrow> real \<Rightarrow> real
     \<Rightarrow> 'p arr \<times> 'p arr \<times> 'p arr" where
  "get_B_s_1 jv r theta phi C k =
     (let Q = (\<lambda>p. radial_Q jv (5 / 2) (- 3) k (r p));
          Br = (\<lambda>p. C * Q p * (3 * cos (theta p) ^ 2 - 1) / r p);
          X = (\<lambda>p. if r p \<le> 1
                 then (let y = k * r p; siny = sin y; cosy = cos y
                       in (3 * siny / y ^ 2 - siny - 3 * cosy / y) / sqrt (2 * pi * y * r p)
                          - k * sqrt (r p) * (3 * siny / y ^ 2 - siny - 3 * cosy / y)
                              / sqrt (2 * pi) * y powr (- 3 / 2)
                          + sqrt (2 / pi * r p)
                              * (- 6 * siny * k / y ^ 3 + 6 * cosy * k / y ^ 2
                                 + 3 * siny * k / y - k * cosy) / sqrt y)
                 else - 2 * r p powr (- 3) * jv (5 / 2) k);
          Btheta = (\<lambda>p. C * (- sin (theta p) * cos (theta p) / r p) * X p);
          Bphi = zeros_like r
      in (Br, Btheta, Bphi))"

definition get_B_s_2 ::
  "(real \<Rightarrow> real \<Rightarrow> real) \<Rightarrow> 'p arr \<Rightarrow> 'p arr \<Rightarrow> 'p arr \<Rightarrow> real \<Rightarrow> real
     \<Rightarrow> 'p arr \<times> 'p arr \<times> 'p arr" where
  "get_B_s_2 jv r theta phi C k =
     (let Br = zeros_like r;
          Btheta = zeros_like r;
          Q = (\<lambda>p. radial_Q jv (3 / 2) (- 2) k (r p));
          Bphi = (\<lambda>p. C * Q p * sin (theta p))
      in (Br, Btheta, Bphi))"

definition get_B_s_3 ::
  "(real \<Rightarrow> real \<Rightarrow> real) \<Rightarrow> 'p arr \<Rightarrow> 'p arr \<Rightarrow> 'p arr \<Rightarrow> real \<Rightarrow> real
     \<Rightarrow> 'p arr \<times> 'p arr \<times> 'p arr" where
  "get_B_s_3 jv r theta phi C k =
     (let S = (\<lambda>p. 35 * cos (theta p) ^ 4 - 30 * cos (theta p) ^ 2 + 3);
          Q = (\<lambda>p. radial_Q jv (9 / 2) (- 5) k (r p));
          Br = (\<lambda>p. C * Q p * S p / r p);
          X = (\<lambda>p. if r p \<le> 1
                 then (let y = k * r p; siny = sin y; cosy = cos y;
                           A = 105 * siny / y ^ 4 - 105 * cosy / y ^ 3 - 45 * siny / y ^ 2
                               + siny + 10 * cosy / y
                       in A / sqrt (2 * pi * y * r p)
                          - k * sqrt (r p) * A / sqrt (2 * pi * y powr 1.5)
                          + sqrt (2 / pi * r p)
                              * (- 420 * siny * k / y ^ 5 + 420 * cosy * k / y ^ 4
                                 + 195 * siny * k / y ^ 3 - 55 * cosy * k / y ^ 2
                                 - 10 * siny * k / y + k * cosy) / sqrt y)
                 else - 4 * r p powr (- 5) * jv (9 / 2) k);
          dSdth = (\<lambda>p. sin (theta p) * cos (theta p) * (60 - 140 * cos (theta p) ^ 2));
          Btheta = (\<lambda>p. C * X p * dSdth p / r p);
          Bphi = zeros_like r
      in (Br, Btheta, Bphi))"

definition get_B_s_4 ::
  "(real \<Rightarrow> real \<Rightarrow> real) \<Rightarrow> 'p arr \<Rightarrow> 'p arr \<Rightarrow> 'p arr \<Rightarrow> real \<Rightarrow> real
     \<Rightarrow> 'p arr \<times> 'p arr \<times> 'p arr" where
  "get_B_s_4 jv r theta phi C k =
     (let Br = zeros_like r;
          Btheta = zeros_like r;
          Q = (\<lambda>p. radial_Q jv (7 / 2) (- 4) k (r p));
          Bphi = (\<lambda>p. - C * Q p * sin (theta p))
      in (Br, Btheta, Bphi))"

text \<open>The calls that leave \<open>C\<close> and \<open>k\<close> to their defaults.\<close>

definition get_B_a_1_default where
  "get_B_a_1_default jv r theta phi = get_B_a_1 jv r theta phi 0.346 pi"

definition get_B_a_2_default where
  "get_B_a_2_default jv r theta phi = get_B_a_2 jv r theta phi 0.250 5.763"

definition get_B_a_3_default where
  "get_B_a_3_default jv r theta phi = get_B_a_3 jv r theta phi 3.445 5.763"

definition get_B_a_4_default where
  "get_B_a_4_default jv r theta phi = get_B_a_4 jv r theta phi 0.244 (2 * pi)"

definition get_B_s_1_default where
  "get_B_s_1_default jv r theta phi = get_B_s_1 jv r theta phi 0.662 4.493"

definition get_B_s_2_default where
  "get_B_s_2_default jv r theta phi = get_B_s_2 jv r theta phi 1.330 4.493"

definition get_B_s_3_default where
  "get_B_s_3_default jv r theta phi = get_B_s_3 jv r theta phi 0.339 6.988"

definition get_B_s_4_default where
  "get_B_s_4_default jv r theta phi = get_B_s_4 jv r theta phi 0.540 6.988"

text \<open>The three components of a returned field.\<close>

definition B_r :: "'a \<times> 'a \<times> 'a \<Rightarrow> 'a" where "B_r B = fst B"
definition B_theta :: "'a \<times> 'a \<times> 'a \<Rightarrow> 'a" where "B_theta B = fst (snd B)"
definition B_phi :: "'a \<times> 'a \<times> 'a \<Rightarrow> 'a" where "B_phi B = snd (snd B)"

section \<open>The perturbation operator: \<open>B_generator_halo.perturbation_operator\<close>\<close>

datatype error =
    AssertionError string
  | NameError string
  | IndexError
  | KeyError string
  | TypeError
  | AttributeError string
  | NotImplementedError

text \<open>A vector field sample: its radial, polar and azimuthal component arrays.\<close>

type_synonym 'p vec = "'p arr \<times> 'p arr \<times> 'p arr"

text \<open>\<open>v[i]\<close> for the indices the operator uses, \<open>0\<close>, \<open>1\<close> and \<open>2\<close>.\<close>

definition item :: "'p vec \<Rightarrow> nat \<Rightarrow> 'p arr" where
  "item v i = (if i = 0 then B_r v else if i = 1 then B_theta v else B_phi v)"

definition amul :: "'p arr \<Rightarrow> 'p arr \<Rightarrow> 'p arr" where
  "amul x y = (\<lambda>p. x p * y p)"

text \<open>
  The numerical work the operator does is done by two helpers that the module does not
  define, \<open>curl_spherical\<close> and \<open>cross\<close>; they are parameters.  Every call of one of them is
  recorded in a log, so that the order of the work and of the raise can be told.
\<close>

datatype work = Curl_spherical | Cross

type_synonym 'p curl_fn =
  "'p arr \<Rightarrow> 'p arr \<Rightarrow> 'p arr \<Rightarrow> 'p arr \<Rightarrow> 'p arr \<Rightarrow> 'p arr \<Rightarrow> 'p vec"

type_synonym 'p cross_fn =
  "'p arr \<Rightarrow> 'p arr \<Rightarrow> 'p arr \<Rightarrow> 'p arr \<Rightarrow> 'p arr \<Rightarrow> 'p arr \<Rightarrow> 'p vec"

text \<open>The loop \<open>for i in range(3)\<close>, on the indices still to visit and the list \<open>WBs\<close> so far.\<close>

fun WBs_loop ::
  "nat list \<Rightarrow> string \<Rightarrow> real \<Rightarrow> real \<Rightarrow> 'p vec \<Rightarrow> 'p vec \<Rightarrow> 'p arr list
     \<Rightarrow> error + 'p arr list" where
  "WBs_loop [] dynamo_type Ra Ro curl_aB curl_VcrossB WBs = Inr WBs"
| "WBs_loop (i # rest) dynamo_type Ra Ro curl_aB curl_VcrossB WBs =
     (if dynamo_type = ''alpha-omega'' then
        WBs_loop rest dynamo_type Ra Ro curl_aB curl_VcrossB
          (WBs @ [\<lambda>p. Ra * (item curl_aB i p - item curl_aB 2 p) + Ro * item curl_VcrossB i p])
      else if dynamo_type = ''alpha2-omega'' then
        WBs_loop rest dynamo_type Ra Ro curl_aB curl_VcrossB
          (WBs @ [\<lambda>p. Ra * item curl_aB i p + Ro * item curl_VcrossB i p])
      else Inl (AssertionError (''Invalid option: dynamo_type='' @ dynamo_type)))"

text \<open>
  The operator.  Line 96 multiplies the field by \<open>a\<close>, a name that neither the function nor
  the module binds (the function's own argument is \<open>alpha\<close>); \<open>a\<close> is therefore a parameter
  of its own, next to the two helpers.  The result is the outcome together with the log of
  the helper calls made.
\<close>

definition perturbation_operator ::
  "'p curl_fn \<Rightarrow> 'p cross_fn \<Rightarrow> 'p arr
     \<Rightarrow> 'p arr \<Rightarrow> 'p arr \<Rightarrow> 'p arr
     \<Rightarrow> 'p arr \<Rightarrow> 'p arr \<Rightarrow> 'p arr
     \<Rightarrow> 'p arr \<Rightarrow> 'p arr \<Rightarrow> 'p arr
     \<Rightarrow> 'p arr \<Rightarrow> real \<Rightarrow> real \<Rightarrow> string
     \<Rightarrow> (error + 'p arr list) \<times> work list" where
  "perturbation_operator curl_spherical cross a r theta phi Br Bt Bp Vr Vt Vp alpha Ra Ro
       dynamo_type =
     (let log0 = [];
          curl_aB = curl_spherical r theta phi (amul Br a) (amul Bt a) (amul Bp a);
          log1 = log0 @ [Curl_spherical];
          VcrossB = cross Vr Vt Vp Br Bt Bp;
          log2 = log1 @ [Cross];
          curl_VcrossB = curl_spherical r theta phi (B_r VcrossB) (B_theta VcrossB) (B_phi VcrossB);
          log3 = log2 @ [Curl_spherical]
      in (WBs_loop [0, 1, 2] dynamo_type Ra Ro curl_aB curl_VcrossB [], log3))"

text \<open>
  The operator as the specification words it, for comparison with the code: the alpha term is
  the curl of \<open>alpha\<close> times the field.
\<close>

definition perturbation_operator_spec ::
  "'p curl_fn \<Rightarrow> 'p cross_fn
     \<Rightarrow> 'p arr \<Rightarrow> 'p arr \<Rightarrow> 'p arr
     \<Rightarrow> 'p arr \<Rightarrow> 'p arr \<Rightarrow> 'p arr
     \<Rightarrow> 'p arr \<Rightarrow> 'p arr \<Rightarrow> 'p arr
     \<Rightarrow> 'p arr \<Rightarrow> real \<Rightarrow> real \<Rightarrow> string \<Rightarrow> nat \<Rightarrow> 'p arr" where
  "perturbation_operator_spec curl_spherical cross r theta phi Br Bt Bp Vr Vt Vp alpha Ra Ro
       dynamo_type i =
     (let curl_alphaB = curl_spherical r theta phi (amul alpha Br) (amul alpha Bt) (amul alpha Bp);
          VcrossB = cross Vr Vt Vp Br Bt Bp;
          curl_VcrossB = curl_spherical r theta phi (B_r VcrossB) (B_theta VcrossB) (B_phi VcrossB)
      in if dynamo_type = ''alpha-omega''
         then (\<lambda>p. Ra * (item curl_alphaB i p - item curl_alphaB 2 p) + Ro * item curl_VcrossB i p)
         else (\<lambda>p. Ra * item curl_alphaB i p + Ro * item curl_VcrossB i p))"

text \<open>
  Concrete helpers for evaluating the operator on a one-point grid: a curl that returns the
  field it is given, and the cross product of the two fields' components.
\<close>

definition curl_id :: "'p curl_fn" where
  "curl_id r theta phi X Y Z = (X, Y, Z)"

definition cross_std :: "'p cross_fn" where
  "cross_std Ar At Ap Br Bt Bp =
     ((\<lambda>p. At p * Bp p - Ap p * Bt p),
      (\<lambda>p. Ap p * Br p - Ar p * Bp p),
      (\<lambda>p. Ar p * Bt p - At p * Br p))"

definition const_arr :: "real \<Rightarrow> unit arr" where
  "const_arr c = (\<lambda>p. c)"

section \<open>The Galerkin coefficient solver: \<open>Galerkin_expansion_coefficients\<close>\<close>

text \<open>
  The Galerkin grid carries three-dimensional arrays, indexed by the position along the
  radial, the polar and the azimuthal axis, and its shape \<open>(n_r, n_theta, n_phi)\<close>.
\<close>

type_synonym arr3 = "(nat \<times> nat \<times> nat) arr"

record grid =
  grid_r_spherical :: arr3
  grid_theta :: arr3
  grid_phi :: arr3
  grid_shape :: "nat \<times> nat \<times> nat"

text \<open>
  The names the solver reads without binding them.  \<open>curl_spherical\<close>, \<open>cross\<close>, \<open>get_mode\<close>
  are helpers that the source files do not hold; \<open>simps\<close> and \<open>eig\<close> are scipy's
  \<open>integrate.simps\<close> (on one axis, with the spacing \<open>dx\<close>) and numpy's \<open>linalg.eig\<close>; the
  others (\<open>a\<close>, \<open>nmodes\<close>, \<open>symmetry\<close>, \<open>Ra\<close>, \<open>Ro\<close>, \<open>dphi\<close>, \<open>dtheta\<close>, \<open>dr\<close>, \<open>gamma\<close>,
  \<open>WBmode\<close>) are variables.  \<open>WBmode[j][k]\<close> is taken to be an array of the grid's shape.
\<close>

record ('e, 's) globals =
  G_curl_spherical :: "(nat \<times> nat \<times> nat) curl_fn"
  G_cross :: "(nat \<times> nat \<times> nat) cross_fn"
  G_a :: arr3
  G_get_mode :: "arr3 \<Rightarrow> arr3 \<Rightarrow> arr3 \<Rightarrow> nat \<Rightarrow> 's \<Rightarrow> (nat \<times> nat \<times> nat) vec"
  G_simps :: "real list \<Rightarrow> real \<Rightarrow> real"
  G_eig :: "real list list \<Rightarrow> 'e"
  G_nmodes :: nat
  G_symmetry :: 's
  G_Ra :: real
  G_Ro :: real
  G_dphi :: real
  G_dtheta :: real
  G_dr :: real
  G_gamma :: "real list"
  G_WBmode :: "nat \<Rightarrow> nat \<Rightarrow> arr3"

text \<open>Lines 189-200: the perturbation operator applied to every mode, in order.\<close>

fun WBmodes_loop ::
  "'v list \<Rightarrow> ('v \<Rightarrow> (error + 'w) \<times> work list) \<Rightarrow> 'w list \<Rightarrow> error + 'w list" where
  "WBmodes_loop [] pert WBmodes = Inr WBmodes"
| "WBmodes_loop (Bmode # rest) pert WBmodes =
     (case fst (pert Bmode) of
        Inl e \<Rightarrow> Inl e
      | Inr WB \<Rightarrow> WBmodes_loop rest pert (WBmodes @ [WB]))"

text \<open>
  Lines 207-210: \<open>integrand += Bmode[i][k]*WBmode[j][k]\<close> for \<open>k\<close> in \<open>range(3)\<close>.  \<open>Bmode\<close> is
  the variable the loop of line 190 leaves bound to the last mode, a list of three arrays:
  \<open>Bmode[i]\<close> is its component \<open>i\<close> (an index error from \<open>i = 3\<close> on), and \<open>[k]\<close> takes the
  slab of radial index \<open>k\<close>, which the product broadcasts along the radial axis.
\<close>

fun integrand_loop ::
  "nat list \<Rightarrow> nat \<Rightarrow> (nat \<times> nat \<times> nat) vec \<Rightarrow> (nat \<Rightarrow> nat \<Rightarrow> arr3) \<Rightarrow> nat \<Rightarrow> nat \<Rightarrow> arr3
     \<Rightarrow> error + arr3" where
  "integrand_loop [] n_r Bmode WBmode i j integrand = Inr integrand"
| "integrand_loop (k # ks) n_r Bmode WBmode i j integrand =
     (if 3 \<le> i then Inl IndexError
      else if n_r \<le> k then Inl IndexError
      else integrand_loop ks n_r Bmode WBmode i j
             (\<lambda>(x, y, z). integrand (x, y, z) + item Bmode i (k, y, z) * WBmode j k (x, y, z)))"

text \<open>
  Lines 214-223: the integration over phi, or the axisymmetric shortcut, then the
  integrations over theta and over r.  \<open>simps\<close> integrates along the last axis.
\<close>

definition integrate_phi ::
  "(real list \<Rightarrow> real \<Rightarrow> real) \<Rightarrow> real \<Rightarrow> nat \<Rightarrow> arr3 \<Rightarrow> error + (nat \<times> nat) arr" where
  "integrate_phi simps dphi n_phi integrand =
     (if dphi \<noteq> 0
      then Inr (\<lambda>(x, y). simps (map (\<lambda>z. integrand (x, y, z)) [0..<n_phi]) dphi)
      else if n_phi = 0 then Inl IndexError
      else Inr (\<lambda>(x, y). integrand (x, y, 0) * 2 * pi))"

definition integrate_theta ::
  "(real list \<Rightarrow> real \<Rightarrow> real) \<Rightarrow> real \<Rightarrow> nat \<Rightarrow> (nat \<times> nat) arr \<Rightarrow> nat arr" where
  "integrate_theta simps dtheta n_theta integrand =
     (\<lambda>x. simps (map (\<lambda>y. integrand (x, y)) [0..<n_theta]) dtheta)"

definition integrate_r :: "(real list \<Rightarrow> real \<Rightarrow> real) \<Rightarrow> real \<Rightarrow> nat \<Rightarrow> nat arr \<Rightarrow> real" where
  "integrate_r simps dr n_r integrand = simps (map integrand [0..<n_r]) dr"

definition integrate_volume ::
  "(real list \<Rightarrow> real \<Rightarrow> real) \<Rightarrow> real \<Rightarrow> real \<Rightarrow> real \<Rightarrow> nat \<times> nat \<times> nat \<Rightarrow> arr3
     \<Rightarrow> error + real" where
  "integrate_volume simps dphi dtheta dr shape integrand =
     (case integrate_phi simps dphi (snd (snd shape)) integrand of
        Inl e \<Rightarrow> Inl e
      | Inr over_phi \<Rightarrow>
          Inr (integrate_r simps dr (fst shape)
                 (integrate_theta simps dtheta (fst (snd shape)) over_phi)))"

text \<open>Lines 207-223 for one pair \<open>(i, j)\<close>: the value added to \<open>Wij[i,j]\<close>.\<close>

definition coupling_integral ::
  "('e, 's) globals \<Rightarrow> grid \<Rightarrow> arr3 \<Rightarrow> (nat \<times> nat \<times> nat) vec option \<Rightarrow> nat \<Rightarrow> nat
     \<Rightarrow> error + real" where
  "coupling_integral G galerkin_grid sintheta Bmode i j =
     (case Bmode of
        None \<Rightarrow> Inl (NameError ''Bmode'')
      | Some Bm \<Rightarrow>
          (case integrand_loop [0, 1, 2] (fst (grid_shape galerkin_grid)) Bm (G_WBmode G) i j
                  (\<lambda>p. 0) of
             Inl e \<Rightarrow> Inl e
           | Inr integrand \<Rightarrow>
               integrate_volume (G_simps G) (G_dphi G) (G_dtheta G) (G_dr G)
                 (grid_shape galerkin_grid)
                 (\<lambda>p. integrand p * ((grid_r_spherical galerkin_grid p) ^ 2 * sintheta p))))"

text \<open>The matrix \<open>Wij\<close> is a list of rows; an index outside it is an index error.\<close>

definition mat_add :: "real list list \<Rightarrow> nat \<Rightarrow> nat \<Rightarrow> real \<Rightarrow> error + real list list" where
  "mat_add Wij i j v =
     (if i < length Wij \<and> j < length (Wij ! i)
      then Inr (Wij[i := (Wij ! i)[j := Wij ! i ! j + v]])
      else Inl IndexError)"

definition mat_set :: "real list list \<Rightarrow> nat \<Rightarrow> nat \<Rightarrow> real \<Rightarrow> error + real list list" where
  "mat_set Wij i j v =
     (if i < length Wij \<and> j < length (Wij ! i)
      then Inr (Wij[i := (Wij ! i)[j := v]])
      else Inl IndexError)"

text \<open>Lines 203-223: the two loops over the pairs, the diagonal skipped.\<close>

fun offdiag_row ::
  "nat list \<Rightarrow> nat \<Rightarrow> (nat \<Rightarrow> nat \<Rightarrow> error + real) \<Rightarrow> real list list
     \<Rightarrow> error + real list list" where
  "offdiag_row [] i entry Wij = Inr Wij"
| "offdiag_row (j # js) i entry Wij =
     (if i = j then offdiag_row js i entry Wij
      else (case entry i j of
              Inl e \<Rightarrow> Inl e
            | Inr v \<Rightarrow>
                (case mat_add Wij i j v of
                   Inl e \<Rightarrow> Inl e
                 | Inr Wij' \<Rightarrow> offdiag_row js i entry Wij')))"

fun offdiag_rows ::
  "nat list \<Rightarrow> nat list \<Rightarrow> (nat \<Rightarrow> nat \<Rightarrow> error + real) \<Rightarrow> real list list
     \<Rightarrow> error + real list list" where
  "offdiag_rows [] js entry Wij = Inr Wij"
| "offdiag_rows (i # is) js entry Wij =
     (case offdiag_row js i entry Wij of
        Inl e \<Rightarrow> Inl e
      | Inr Wij' \<Rightarrow> offdiag_rows is js entry Wij')"

text \<open>Lines 225-227: \<open>Wij[i,i] = gamma[i]\<close> for \<open>i\<close> in \<open>range(n_free_decay_modes)\<close>.\<close>

fun diag_loop :: "nat list \<Rightarrow> real list \<Rightarrow> real list list \<Rightarrow> error + real list list" where
  "diag_loop [] gamma Wij = Inr Wij"
| "diag_loop (i # is) gamma Wij =
     (if length gamma \<le> i then Inl IndexError
      else (case mat_set Wij i i (gamma ! i) of
              Inl e \<Rightarrow> Inl e
            | Inr Wij' \<Rightarrow> diag_loop is gamma Wij'))"

text \<open>
  The solver.  The modes are evaluated on the grid by \<open>get_mode\<close>, the profiles by the two
  functions given; the result is the eigen-decomposition and, on request, the matrix.
\<close>

definition Galerkin_expansion_coefficients ::
  "('e, 's) globals \<Rightarrow> grid \<Rightarrow> bool \<Rightarrow> string \<Rightarrow> nat \<Rightarrow> bool
     \<Rightarrow> (arr3 \<Rightarrow> arr3 \<Rightarrow> arr3 \<Rightarrow> (nat \<times> nat \<times> nat) vec) \<Rightarrow> (arr3 \<Rightarrow> arr3 \<Rightarrow> arr3 \<Rightarrow> arr3)
     \<Rightarrow> error + ('e \<times> real list list option)" where
  "Galerkin_expansion_coefficients G galerkin_grid symmetric dynamo_type n_free_decay_modes
       return_matrix function_V function_alpha =
     (let local_r_sph_grid = grid_r_spherical galerkin_grid;
          local_phi_grid = grid_phi galerkin_grid;
          local_theta_grid = grid_theta galerkin_grid;
          Bmodes = map (\<lambda>imode. G_get_mode G local_r_sph_grid local_theta_grid local_phi_grid
                                  imode (G_symmetry G)) [1..<G_nmodes G + 1];
          sintheta = (\<lambda>p. sin (local_theta_grid p));
          alpha = function_alpha local_r_sph_grid local_theta_grid local_phi_grid;
          Vs = function_V local_r_sph_grid local_theta_grid local_phi_grid
      in case WBmodes_loop Bmodes
                (\<lambda>Bmode. perturbation_operator (G_curl_spherical G) (G_cross G) (G_a G)
                     (grid_r_spherical galerkin_grid) (grid_theta galerkin_grid)
                     (grid_phi galerkin_grid)
                     (item Bmode 0) (item Bmode 1) (item Bmode 2)
                     (item Vs 0) (item Vs 1) (item Vs 2)
                     alpha (G_Ra G) (G_Ro G) dynamo_type) [] of
           Inl e \<Rightarrow> Inl e
         | Inr WBmodes \<Rightarrow>
             (case offdiag_rows [0..<n_free_decay_modes] [0..<n_free_decay_modes]
                     (coupling_integral G galerkin_grid sintheta
                        (if Bmodes = [] then None else Some (last Bmodes)))
                     (replicate (G_nmodes G) (replicate (G_nmodes G) 0)) of
                Inl e \<Rightarrow> Inl e
              | Inr Wij \<Rightarrow>
                  (case diag_loop [0..<n_free_decay_modes] (G_gamma G) Wij of
                     Inl e \<Rightarrow> Inl e
                   | Inr Wij' \<Rightarrow>
                       Inr (G_eig G Wij', if return_matrix then Some Wij' else None))))"

text \<open>
  Composite Simpson quadrature on an odd number of equally spaced samples, for evaluating
  the solver on concrete grids.
\<close>

fun simpson_sum :: "real list \<Rightarrow> real" where
  "simpson_sum (f0 # f1 # f2 # rest) = f0 + 4 * f1 + f2 + simpson_sum (f2 # rest)"
| "simpson_sum fs = 0"

definition simpson :: "real list \<Rightarrow> real \<Rightarrow> real" where
  "simpson fs dx = dx / 3 * simpson_sum fs"

text \<open>
  A small axisymmetric run of the solver: a grid of \<open>3 x 3 x 1\<close> points at radius \<open>1\<close> and
  polar angle \<open>pi / 2\<close>, two modes that are \<open>1\<close> in every component, \<open>WBmode\<close> bound to
  arrays of ones, unit spacings, and the dynamo numbers left open.
\<close>

definition example_grid :: grid where
  "example_grid =
     \<lparr>grid_r_spherical = (\<lambda>p. 1), grid_theta = (\<lambda>p. pi / 2), grid_phi = (\<lambda>p. 0),
      grid_shape = (3, 3, 1)\<rparr>"

definition example_globals :: "real \<Rightarrow> real \<Rightarrow> (unit, bool) globals" where
  "example_globals Ra Ro =
     \<lparr>G_curl_spherical = curl_id, G_cross = cross_std, G_a = (\<lambda>p. 1),
      G_get_mode = (\<lambda>r theta phi imode symmetry. ((\<lambda>p. 1), (\<lambda>p. 1), (\<lambda>p. 1))),
      G_simps = simpson, G_eig = (\<lambda>Wij. ()),
      G_nmodes = 2, G_symmetry = False, G_Ra = Ra, G_Ro = Ro,
      G_dphi = 0, G_dtheta = 1, G_dr = 1, G_gamma = [- 10, - 33],
      G_WBmode = (\<lambda>j k p. 1)\<rparr>"

definition example_V :: "arr3 \<Rightarrow> arr3 \<Rightarrow> arr3 \<Rightarrow> (nat \<times> nat \<times> nat) vec" where
  "example_V r theta phi = ((\<lambda>p. 0), (\<lambda>p. 0), (\<lambda>p. 1))"

definition example_alpha :: "arr3 \<Rightarrow> arr3 \<Rightarrow> arr3 \<Rightarrow> arr3" where
  "example_alpha r theta phi = (\<lambda>p. 1)"

section \<open>The class \<open>B_generator_halo\<close> and its method \<open>get_B_field\<close>\<close>

text \<open>Parameter values, and the built-in defaults of the class.\<close>

datatype pvalue = PBool bool | PNat nat | PStr string | PFun string | PList "real list"

definition builtin_parameter_defaults :: "(string \<times> pvalue) list" where
  "builtin_parameter_defaults =
     [(''halo_symmetric_field'', PBool True),
      (''halo_n_free_decay_modes'', PNat 4),
      (''halo_dynamo_type'', PStr ''alpha-omega''),
      (''halo_rotation_function'', PFun ''simple_V''),
      (''halo_alpha_function'', PFun ''simple_alpha''),
      (''halo_Galerkin_ngrid'', PNat 250),
      (''halo_growing_mode_only'', PBool False),
      (''halo_compute_only_one_quadrant'', PBool True)]"

text \<open>
  \<open>_parse_parameters\<close> belongs to the base class, which the source files do not hold; it is
  a parameter \<open>parse\<close> of the methods, from the keyword arguments to the parsed dictionary.
  For evaluation, \<open>parse_with_defaults\<close> lets the keyword arguments override the built-in
  defaults.
\<close>

definition parse_with_defaults :: "(string \<times> pvalue) list \<Rightarrow> string \<Rightarrow> pvalue option" where
  "parse_with_defaults kwargs = map_of (kwargs @ builtin_parameter_defaults)"

text \<open>A call of the \<open>Grid\<close> constructor: its box, resolution and grid type.\<close>

record grid_request =
  req_box :: "(real \<times> real) list"
  req_resolution :: "pvalue list"
  req_grid_type :: string

text \<open>
  The definition of \<open>get_B_field\<close> at line 41.  The result is the outcome together with the
  grids constructed on the way.
\<close>

definition get_B_field_line_41 ::
  "((string \<times> pvalue) list \<Rightarrow> string \<Rightarrow> pvalue option) \<Rightarrow> (string \<times> pvalue) list
     \<Rightarrow> (error + 'f) \<times> grid_request list" where
  "get_B_field_line_41 parse kwargs =
     (let parsed_parameters = parse kwargs in
      case parsed_parameters ''halo_Galerkin_ngrid'' of
        None \<Rightarrow> (Inl (KeyError ''halo_Galerkin_ngrid''), [])
      | Some nGalerkin \<Rightarrow>
          (let Galerkin = \<lparr>req_box = [(0.0001, 2.0), (0.1, pi), (0.0, 0.0)],
                            req_resolution = [nGalerkin, nGalerkin, PNat 1],
                            req_grid_type = ''spherical''\<rparr>
           in (Inl NotImplementedError, [Galerkin])))"

text \<open>
  The definition of \<open>get_B_field\<close> at line 236.  \<open>len\<close> of the normalization list is the
  component count; the assembly of the field from the grid of the generator (lines 244-271)
  is the parameter \<open>build\<close>.
\<close>

definition len_pvalue :: "pvalue \<Rightarrow> nat option" where
  "len_pvalue v = (case v of PList xs \<Rightarrow> Some (length xs) | PStr s \<Rightarrow> Some (length s) | _ \<Rightarrow> None)"

definition get_B_field_line_236 ::
  "((string \<times> pvalue) list \<Rightarrow> string \<Rightarrow> pvalue option)
     \<Rightarrow> (nat \<Rightarrow> (string \<Rightarrow> pvalue option) \<Rightarrow> 'f) \<Rightarrow> (string \<times> pvalue) list
     \<Rightarrow> (error + 'f) \<times> grid_request list" where
  "get_B_field_line_236 parse build kwargs =
     (let parsed_parameters = parse kwargs in
      case parsed_parameters ''disk_component_normalization'' of
        None \<Rightarrow> (Inl (KeyError ''disk_component_normalization''), [])
      | Some v \<Rightarrow>
          (case len_pvalue v of
             None \<Rightarrow> (Inl TypeError, [])
           | Some component_count \<Rightarrow> (Inr (build component_count parsed_parameters), [])))"

text \<open>
  The class body binds its names in the order of the \<open>def\<close> statements, and a later binding
  of a name replaces an earlier one.
\<close>

datatype method_def =
    Def_init
  | Def_builtin_parameter_defaults
  | Def_get_B_field_line_41
  | Def_perturbation_operator
  | Def_Galerkin_expansion_coefficients
  | Def_get_B_field_line_236

definition B_generator_halo_body :: "(string \<times> method_def) list" where
  "B_generator_halo_body =
     [(''__init__'', Def_init),
      (''_builtin_parameter_defaults'', Def_builtin_parameter_defaults),
      (''get_B_field'', Def_get_B_field_line_41),
      (''perturbation_operator'', Def_perturbation_operator),
      (''Galerkin_expansion_coefficients'', Def_Galerkin_expansion_coefficients),
      (''get_B_field'', Def_get_B_field_line_236)]"

fun bind_all :: "(string \<times> method_def) list \<Rightarrow> (string \<Rightarrow> method_def option)
     \<Rightarrow> (string \<Rightarrow> method_def option)" where
  "bind_all [] ns = ns"
| "bind_all ((name, d) # rest) ns = bind_all rest (ns(name \<mapsto> d))"

definition class_attr :: "string \<Rightarrow> method_def option" where
  "class_attr name = bind_all B_generator_halo_body Map.empty name"

text \<open>The call \<open>generator.get_B_field(**kwargs)\<close> on an instance of the class.\<close>

definition call_get_B_field ::
  "((string \<times> pvalue) list \<Rightarrow> string \<Rightarrow> pvalue option)
     \<Rightarrow> (nat \<Rightarrow> (string \<Rightarrow> pvalue option) \<Rightarrow> 'f) \<Rightarrow> (string \<times> pvalue) list
     \<Rightarrow> (error + 'f) \<times> grid_request list" where
  "call_get_B_field parse build kwargs =
     (case class_attr ''get_B_field'' of
        Some Def_get_B_field_line_41 \<Rightarrow> get_B_field_line_41 parse kwargs
      | Some Def_get_B_field_line_236 \<Rightarrow> get_B_field_line_236 parse build kwargs
      | _ \<Rightarrow> (Inl (AttributeError ''get_B_field''), []))"

section \<open>The names the operator reads from the module\<close>

text \<open>
  \<open>curl_spherical\<close>, \<open>cross\<close> and \<open>a\<close> are looked up in the module when the operator runs.  A
  name that is not bound raises \<open>NameError\<close> at its first use: the callee of line 96 first,
  then \<open>a\<close> among its arguments, then the callee of line 99, after the first curl.  The
  source file binds none of the three (its imports are \<open>np\<close>, \<open>scipy\<close>, \<open>B_field\<close>,
  \<open>B_generator\<close>, \<open>Grid\<close>, \<open>simple_V\<close>, \<open>simple_alpha\<close>).
\<close>

record 'p module_names =
  N_curl_spherical :: "'p curl_fn option"
  N_cross :: "'p cross_fn option"
  N_a :: "'p arr option"

definition shipped_module :: "'p module_names" where
  "shipped_module = \<lparr>N_curl_spherical = None, N_cross = None, N_a = None\<rparr>"

definition perturbation_operator_call ::
  "'p module_names
     \<Rightarrow> 'p arr \<Rightarrow> 'p arr \<Rightarrow> 'p arr
     \<Rightarrow> 'p arr \<Rightarrow> 'p arr \<Rightarrow> 'p arr
     \<Rightarrow> 'p arr \<Rightarrow> 'p arr \<Rightarrow> 'p arr
     \<Rightarrow> 'p arr \<Rightarrow> real \<Rightarrow> real \<Rightarrow> string
     \<Rightarrow> (error + 'p arr list) \<times> work list" where
  "perturbation_operator_call M r theta phi Br Bt Bp Vr Vt Vp alpha Ra Ro dynamo_type =
     (case N_curl_spherical M of
        None \<Rightarrow> (Inl (NameError ''curl_spherical''), [])
      | Some curl_spherical \<Rightarrow>
          (case N_a M of
             None \<Rightarrow> (Inl (NameError ''a''), [])
           | Some a \<Rightarrow>
               (case N_cross M of
                  None \<Rightarrow> (Inl (NameError ''cross''), [Curl_spherical])
                | Some cross \<Rightarrow>
                    perturbation_operator curl_spherical cross a r theta phi Br Bt Bp
                      Vr Vt Vp alpha Ra Ro dynamo_type)))"

section \<open>Agreement within a relative tolerance\<close>

text \<open>Two values agree within the relative tolerance \<open>tol\<close>.\<close>

definition agree_within :: "real \<Rightarrow> real \<Rightarrow> real \<Rightarrow> bool" where
  "agree_within tol x y \<longleftrightarrow> \<bar>x - y\<bar> \<le> tol * max \<bar>x\<bar> \<bar>y\<bar>"

text \<open>
  The Bessel function of order \<open>7 / 2\<close> in closed form, an instance of \<open>jv\<close> at that order
  for evaluation.
\<close>

definition bessel_J_7_2 :: "real \<Rightarrow> real" where
  "bessel_J_7_2 x =
     sqrt (2 / (pi * x)) * ((15 / x ^ 3 - 6 / x) * sin x - (15 / x ^ 2 - 1) * cos x)"

section \<open>Properties of the mode library\<close>

lemma toroidal_a_3: "B_r (get_B_a_3 jv r theta phi C k) q = 0 \<and> B_theta (get_B_a_3 jv r theta phi C k) q = 0"
  by (simp add: get_B_a_3_def B_r_def B_theta_def zeros_like_def Let_def)

lemma toroidal_s_2: "B_r (get_B_s_2 jv r theta phi C k) q = 0 \<and> B_theta (get_B_s_2 jv r theta phi C k) q = 0"
  by (simp add: get_B_s_2_def B_r_def B_theta_def zeros_like_def Let_def)

lemma toroidal_s_4: "B_r (get_B_s_4 jv r theta phi C k) q = 0 \<and> B_theta (get_B_s_4 jv r theta phi C k) q = 0"
  by (simp add: get_B_s_4_def B_r_def B_theta_def zeros_like_def Let_def)

lemma poloidal_a_1: "B_phi (get_B_a_1 jv r theta phi C k) q = 0"
  by (simp add: get_B_a_1_def B_phi_def zeros_like_def Let_def)

lemma poloidal_a_2: "B_phi (get_B_a_2 jv r theta phi C k) q = 0"
  by (simp add: get_B_a_2_def B_phi_def zeros_like_def Let_def)

lemma poloidal_s_1: "B_phi (get_B_s_1 jv r theta phi C k) q = 0"
  by (simp add: get_B_s_1_def B_phi_def zeros_like_def Let_def)

lemma poloidal_s_3: "B_phi (get_B_s_3 jv r theta phi C k) q = 0"
  by (simp add: get_B_s_3_def B_phi_def zeros_like_def Let_def)

text \<open>
  Claim C3.  On every grid, and so on every grid of positive radii, each toroidal mode
  function (\<open>get_B_a_3\<close>, \<open>get_B_s_2\<close>, \<open>get_B_s_4\<close>) returns a radial and a polar component
  that are zero at every grid point \<open>q\<close>, and each poloidal mode function (\<open>get_B_a_1\<close>,
  \<open>get_B_a_2\<close>, \<open>get_B_a_4\<close>, \<open>get_B_s_1\<close>, \<open>get_B_s_3\<close>) returns an azimuthal component that
  is zero at every grid point, whatever the constants \<open>C\<close> and \<open>k\<close>.
\<close>

theorem C3_toroidal_poloidal_zero_components:
  "B_r (get_B_a_3 jv r theta phi C k) q = 0 \<and> B_theta (get_B_a_3 jv r theta phi C k) q = 0
   \<and> B_r (get_B_s_2 jv r theta phi C k) q = 0 \<and> B_theta (get_B_s_2 jv r theta phi C k) q = 0
   \<and> B_r (get_B_s_4 jv r theta phi C k) q = 0 \<and> B_theta (get_B_s_4 jv r theta phi C k) q = 0
   \<and> B_phi (get_B_a_1 jv r theta phi C k) q = 0
   \<and> B_phi (get_B_a_2 jv r theta phi C k) q = 0
   \<and> B_phi (get_B_a_4 jv r theta phi C k) q = 0
   \<and> B_phi (get_B_s_1 jv r theta phi C k) q = 0
   \<and> B_phi (get_B_s_3 jv r theta phi C k) q = 0"
  using toroidal_a_3 [of jv r theta phi C k q] toroidal_s_2 [of jv r theta phi C k q]
    toroidal_s_4 [of jv r theta phi C k q] poloidal_a_1 [of jv r theta phi C k q]
    poloidal_a_2 [of jv r theta phi C k q] poloidal_s_1 [of jv r theta phi C k q]
    poloidal_s_3 [of jv r theta phi C k q]
  by (simp add: get_B_a_4_def)

text \<open>
  Claim C10.  Called with its default constants, \<open>get_B_a_4\<close> returns the very three
  component arrays that \<open>get_B_a_1\<close> returns on the same grid with \<open>C = 0.244\<close> and
  \<open>k = 2 * pi\<close>: the fourth antisymmetric mode is the first one's formula with other
  constants.
\<close>

theorem C10_a_4_is_a_1_reparameterized:
  "get_B_a_4_default jv r theta phi = get_B_a_1 jv r theta phi 0.244 (2 * pi)"
  by (simp add: get_B_a_4_default_def get_B_a_4_def)

section \<open>Continuity of the modes at the unit sphere\<close>

text \<open>Bounds on \<open>pi\<close> that place \<open>5.763\<close> in the fourth quadrant.\<close>

lemma sum_upto_9:
  "(\<Sum>m<9. f m) = f 0 + f 1 + f 2 + f 3 + f 4 + f 5 + f 6 + f 7 + f 8" for f :: "nat \<Rightarrow> real"
  by (simp add: numeral_eq_Suc lessThan_Suc)

lemma sum_upto_6:
  "(\<Sum>m<6. f m) = f 0 + f 1 + f 2 + f 3 + f 4 + f 5" for f :: "nat \<Rightarrow> real"
  by (simp add: numeral_eq_Suc lessThan_Suc)

lemma sin_coeffs:
  "sin_coeff 1 = 1" "sin_coeff 2 = 0" "sin_coeff 3 = - 1 / 6" "sin_coeff 4 = 0"
  "sin_coeff 5 = 1 / 120" "sin_coeff 6 = 0" "sin_coeff 7 = - 1 / 5040" "sin_coeff 8 = 0"
  by (simp_all add: sin_coeff_def fact_numeral)

lemma cos_coeffs:
  "cos_coeff 1 = 0" "cos_coeff 2 = - 1 / 2" "cos_coeff 3 = 0" "cos_coeff 4 = 1 / 24"
  "cos_coeff 5 = 0"
  by (simp_all add: cos_coeff_def fact_numeral)

lemma sin_28815_pos: "0 < sin (2.8815::real)"
proof -
  have "\<bar>sin (2.8815::real) - (\<Sum>m<9. sin_coeff m * 2.8815 ^ m)\<bar> \<le> inverse (fact 9) * \<bar>2.8815\<bar> ^ 9"
    by (rule Maclaurin_sin_bound)
  then have "sin (2.8815::real) \<ge> (2.8815 - 2.8815^3/6 + 2.8815^5/120 - 2.8815^7/5040) - inverse (fact 9) * 2.8815 ^ 9"
    unfolding sum_upto_9 sin_coeffs sin_coeff_0 by (simp add: abs_le_iff)
  moreover have "(2.8815 - 2.8815^3/6 + 2.8815^5/120 - 2.8815^7/5040) - inverse (fact 9) * 2.8815 ^ 9 > (0::real)"
    by (simp add: fact_numeral power_divide)
  ultimately show ?thesis by linarith
qed

lemma cos_1921_neg: "cos (1.921::real) < 0"
proof -
  obtain t :: real where "cos (1.921::real) = (\<Sum>m<6. cos_coeff m * 1.921 ^ m) + (cos (t + 1/2 * real 6 * pi) / fact 6) * 1.921 ^ 6"
    using Maclaurin_cos_expansion [of "1.921" 6] by blast
  then have e: "cos (1.921::real) = (1 - 1.921^2/2 + 1.921^4/24) + cos (t + 1/2 * real 6 * pi) * (1.921 ^ 6 / fact 6)"
    unfolding sum_upto_6 cos_coeffs cos_coeff_0 by simp
  have "cos (t + 1/2 * real 6 * pi) * (1.921 ^ 6 / fact 6) \<le> 1 * (1.921 ^ 6 / fact 6)"
    by (rule mult_right_mono) simp_all
  with e have "cos (1.921::real) \<le> (1 - 1.921^2/2 + 1.921^4/24) + 1.921 ^ 6 / fact 6" by linarith
  moreover have "(1 - 1.921^2/2 + 1.921^4/24) + 1.921 ^ 6 / fact 6 < (0::real)"
    by (simp add: fact_numeral power_divide)
  ultimately show ?thesis by linarith
qed

lemma pi_lower: "2.8815 < pi"
proof (rule ccontr)
  assume "\<not> 2.8815 < pi"
  then have le: "pi \<le> 2.8815" by simp
  have "pi \<noteq> 2.8815" using sin_28815_pos sin_pi by (metis less_irrefl)
  with le have "pi < 2.8815" by simp
  moreover have "(2.8815::real) < 4" by simp
  then have "(2.8815::real) < 2 * pi" using pi_ge_two by linarith
  ultimately have "sin (2.8815::real) < 0" by (rule sin_lt_zero)
  with sin_28815_pos show False by linarith
qed

lemma pi_upper: "pi < 3.842"
proof (rule ccontr)
  assume "\<not> pi < 3.842"
  then have "1.921 \<le> pi / 2" by simp
  moreover have "1.921 \<noteq> pi / 2" using cos_1921_neg cos_pi_half by (metis less_irrefl)
  ultimately have "1.921 < pi / 2" by simp
  then have "0 < cos (1.921::real)" by (intro cos_gt_zero) simp_all
  with cos_1921_neg show False by linarith
qed

lemma sin_k_neg: "sin (5.763::real) < 0"
  using pi_lower pi_upper by (intro sin_lt_zero) simp_all

lemma cos_k_pos: "0 < cos (5.763::real)"
proof -
  have "0 < cos (2 * pi - 5.763)"
    using pi_lower pi_upper by (intro cos_gt_zero) simp_all
  then show ?thesis by (simp add: cos_diff)
qed


lemma X_a_2_interior_at_1:
  assumes "0 < k"
  shows "X_a_2_interior k 1 =
           sqrt (2 / pi) * (- 45 * sin k / k ^ 3 + 45 * cos k / k ^ 2 + 21 * sin k / k
                            - k * sin k - 6 * sin k) / sqrt k"
proof -
  have p: "k powr (3 / 2) = k * sqrt k"
  proof -
    have "k powr (3 / 2) = k powr (1 + 1 / 2)" by simp
    also have "\<dots> = k powr 1 * k powr (1 / 2)" by (rule powr_add)
    also have "\<dots> = k * sqrt k" using assms by (simp add: powr_half_sqrt)
    finally show ?thesis .
  qed
  have q: "sqrt (2 * pi * k) = sqrt (2 * pi) * sqrt k"
    by (simp add: real_sqrt_mult)
  have sk: "0 < sqrt k" using assms by simp
  have c: "A / sqrt (2 * pi * k) - k * A / sqrt (2 * pi) / (k * sqrt k) = 0" for A :: real
    unfolding q using assms sk by (simp add: field_simps)
  show ?thesis
    unfolding X_a_2_interior_def Let_def using c p by simp
qed

lemma X_a_2_interior_pos: "0 < X_a_2_interior 5.763 1"
proof -
  let ?k = "5.763 :: real"
  have s: "sin ?k < 0" by (rule sin_k_neg)
  have c: "0 < cos ?k" by (rule cos_k_pos)
  have coef: "- 45 / ?k ^ 3 + 21 / ?k - ?k - 6 < 0" by (simp add: power_divide)
  have "0 < sin ?k * (- 45 / ?k ^ 3 + 21 / ?k - ?k - 6)"
    using s coef by (rule mult_neg_neg)
  moreover have "0 < 45 * cos ?k / ?k ^ 2" using c by simp
  ultimately have "0 < sin ?k * (- 45 / ?k ^ 3 + 21 / ?k - ?k - 6) + 45 * cos ?k / ?k ^ 2"
    by (rule add_pos_pos)
  also have "sin ?k * (- 45 / ?k ^ 3 + 21 / ?k - ?k - 6) + 45 * cos ?k / ?k ^ 2
      = - 45 * sin ?k / ?k ^ 3 + 45 * cos ?k / ?k ^ 2 + 21 * sin ?k / ?k - ?k * sin ?k - 6 * sin ?k"
    by (simp add: algebra_simps)
  finally have B: "0 < - 45 * sin ?k / ?k ^ 3 + 45 * cos ?k / ?k ^ 2 + 21 * sin ?k / ?k
                       - ?k * sin ?k - 6 * sin ?k" .
  have eq: "X_a_2_interior ?k 1 =
              sqrt (2 / pi) * (- 45 * sin ?k / ?k ^ 3 + 45 * cos ?k / ?k ^ 2 + 21 * sin ?k / ?k
                               - ?k * sin ?k - 6 * sin ?k) / sqrt ?k"
    by (rule X_a_2_interior_at_1) simp
  have "0 < sqrt (2 / pi) * (- 45 * sin ?k / ?k ^ 3 + 45 * cos ?k / ?k ^ 2 + 21 * sin ?k / ?k
                               - ?k * sin ?k - 6 * sin ?k) / sqrt ?k"
    using B by (intro divide_pos_pos mult_pos_pos) simp_all
  then show ?thesis by (simp only: eq)
qed

lemma bessel_J_7_2_pos: "0 < bessel_J_7_2 5.763"
proof -
  let ?k = "5.763 :: real"
  have s: "sin ?k < 0" by (rule sin_k_neg)
  have c: "0 < cos ?k" by (rule cos_k_pos)
  have c1: "15 / ?k ^ 3 - 6 / ?k < 0" by (simp add: power_divide)
  have c2: "15 / ?k ^ 2 - 1 < 0" by (simp add: power_divide)
  have "0 < (15 / ?k ^ 3 - 6 / ?k) * sin ?k" using c1 s by (rule mult_neg_neg)
  moreover have "(15 / ?k ^ 2 - 1) * cos ?k < 0" using c2 c by (rule mult_neg_pos)
  ultimately have "0 < (15 / ?k ^ 3 - 6 / ?k) * sin ?k - (15 / ?k ^ 2 - 1) * cos ?k" by linarith
  moreover have "0 < sqrt (2 / (pi * ?k))" by simp
  ultimately show ?thesis unfolding bessel_J_7_2_def by (rule mult_pos_pos [rotated])
qed

lemma opposite_signs_disagree:
  assumes "0 < x" and "y \<le> 0" and "0 < tol" and "tol < 1"
  shows "\<not> agree_within tol x y"
proof -
  have m: "max \<bar>x\<bar> \<bar>y\<bar> \<le> \<bar>x - y\<bar>" using assms by (simp add: max_def abs_if)
  have "0 < max \<bar>x\<bar> \<bar>y\<bar>" using assms by (simp add: max_def abs_if)
  with assms have "tol * max \<bar>x\<bar> \<bar>y\<bar> < 1 * max \<bar>x\<bar> \<bar>y\<bar>" by (intro mult_strict_right_mono)
  with m show ?thesis unfolding agree_within_def by linarith
qed

text \<open>
  Claim C4, at a failing input.  For the second antisymmetric mode with its default
  constants (\<open>C = 0.250\<close>, \<open>k = 5.763\<close>), at \<open>r = 1\<close> and \<open>theta = pi / 2\<close>, the polar
  component that the code returns (the interior formula) is positive, whereas the exterior
  formula at \<open>r = 1\<close> is \<open>- 0.75 * jv(7/2, k)\<close>, which is not positive as soon as the Bessel
  function is not negative there: the two do not agree within the relative tolerance
  \<open>1e-6\<close>.  The interior formula's auxiliary \<open>B\<close> ends in \<open>6 * sin y / r\<close> where the
  derivative of \<open>A\<close> has \<open>6 * cos y / r\<close>.
\<close>

theorem C4_a_2_polar_component_jumps:
  assumes "0 \<le> jv (7 / 2) 5.763"
  shows "\<not> agree_within (1 / 10 ^ 6)
           (B_theta (get_B_a_2_default jv (const_arr 1) (const_arr (pi / 2)) (const_arr 0)) ())
           (Btheta_a_2 0.250 (pi / 2) 1 (X_a_2_exterior jv 5.763 1))"
proof -
  have i: "B_theta (get_B_a_2_default jv (const_arr 1) (const_arr (pi / 2)) (const_arr 0)) ()
           = 0.250 * X_a_2_interior 5.763 1"
    by (simp add: get_B_a_2_default_def get_B_a_2_def Let_def B_theta_def const_arr_def
        Btheta_a_2_def)
  have e: "Btheta_a_2 0.250 (pi / 2) 1 (X_a_2_exterior jv 5.763 1) = - 0.750 * jv (7 / 2) 5.763"
    by (simp add: Btheta_a_2_def X_a_2_exterior_def)
  have "0 < 0.250 * X_a_2_interior 5.763 1" using X_a_2_interior_pos by simp
  moreover have "- 0.750 * jv (7 / 2) 5.763 \<le> 0" using assms by simp
  ultimately show ?thesis
    unfolding i e by (intro opposite_signs_disagree) simp_all
qed

theorem C4_a_2_polar_component_jumps_witness:
  "0 \<le> bessel_J_7_2 5.763
   \<and> \<not> agree_within (1 / 10 ^ 6)
           (B_theta (get_B_a_2_default (\<lambda>order. bessel_J_7_2) (const_arr 1) (const_arr (pi / 2))
              (const_arr 0)) ())
           (Btheta_a_2 0.250 (pi / 2) 1 (X_a_2_exterior (\<lambda>order. bessel_J_7_2) 5.763 1))"
proof -
  have h: "0 \<le> (\<lambda>order. bessel_J_7_2) (7 / 2) 5.763" using bessel_J_7_2_pos by simp
  from C4_a_2_polar_component_jumps [of "\<lambda>order. bessel_J_7_2", OF h] h show ?thesis by simp
qed

section \<open>Properties of the perturbation operator\<close>

lemma WBs_loop_alpha_omega:
  "WBs_loop [0, 1, 2] ''alpha-omega'' Ra Ro cA cV [] =
     Inr [\<lambda>p. Ra * (item cA 0 p - item cA 2 p) + Ro * item cV 0 p,
          \<lambda>p. Ra * (item cA 1 p - item cA 2 p) + Ro * item cV 1 p,
          \<lambda>p. Ra * (item cA 2 p - item cA 2 p) + Ro * item cV 2 p]"
  by simp

lemma WBs_loop_alpha2_omega:
  "WBs_loop [0, 1, 2] ''alpha2-omega'' Ra Ro cA cV [] =
     Inr [\<lambda>p. Ra * item cA 0 p + Ro * item cV 0 p,
          \<lambda>p. Ra * item cA 1 p + Ro * item cV 1 p,
          \<lambda>p. Ra * item cA 2 p + Ro * item cV 2 p]"
  by simp

lemma WBs_loop_invalid:
  assumes "dynamo_type \<noteq> ''alpha-omega''" and "dynamo_type \<noteq> ''alpha2-omega''"
  shows "WBs_loop (i # rest) dynamo_type Ra Ro cA cV WBs =
           Inl (AssertionError (''Invalid option: dynamo_type='' @ dynamo_type))"
  using assms by simp

text \<open>
  What the code computes under the two supported tags: the alpha term is the curl of the
  field times \<open>a\<close>, and the argument \<open>alpha\<close> is not read.
\<close>

lemma perturbation_operator_ignores_alpha:
  "perturbation_operator curl_spherical cross a r theta phi Br Bt Bp Vr Vt Vp alpha Ra Ro tag
     = perturbation_operator curl_spherical cross a r theta phi Br Bt Bp Vr Vt Vp alpha' Ra Ro tag"
  by (simp add: perturbation_operator_def)

lemma perturbation_operator_tags_differ:
  assumes "i < 3"
  shows "(projr (fst (perturbation_operator curl_spherical cross a r theta phi Br Bt Bp Vr Vt Vp
              alpha Ra Ro ''alpha2-omega'')) ! i) p
         - (projr (fst (perturbation_operator curl_spherical cross a r theta phi Br Bt Bp Vr Vt Vp
              alpha Ra Ro ''alpha-omega'')) ! i) p
         = Ra * item (curl_spherical r theta phi (amul Br a) (amul Bt a) (amul Bp a)) 2 p"
proof -
  from assms have "i = 0 \<or> i = 1 \<or> i = 2" by arith
  then show ?thesis
    by (auto simp add: perturbation_operator_def Let_def algebra_simps)
qed

text \<open>
  Claim C1, at a failing input.  On the one-point grid, with the field \<open>(1, 0, 0)\<close>, no
  velocity, \<open>alpha = 2\<close>, \<open>Ra = 1\<close>, \<open>Ro = 0\<close>, a curl that returns its argument and the name
  \<open>a\<close> bound to \<open>1\<close>, the code's radial component under \<open>alpha-omega\<close> is \<open>1\<close>, whereas the
  claimed \<open>Ra * (curl(alpha * B)_r - curl(alpha * B)_phi) + Ro * curl(V x B)_r\<close> is \<open>2\<close>: the
  code's alpha term is built from \<open>a\<close>, not from the alpha sample.
\<close>

theorem C1_alpha_term_uses_a_not_alpha:
  "\<not> isl (fst (perturbation_operator curl_id cross_std (const_arr 1)
        (const_arr 1) (const_arr 1) (const_arr 0)
        (const_arr 1) (const_arr 0) (const_arr 0)
        (const_arr 0) (const_arr 0) (const_arr 0)
        (const_arr 2) 1 0 ''alpha-omega''))
   \<and> (projr (fst (perturbation_operator curl_id cross_std (const_arr 1)
        (const_arr 1) (const_arr 1) (const_arr 0)
        (const_arr 1) (const_arr 0) (const_arr 0)
        (const_arr 0) (const_arr 0) (const_arr 0)
        (const_arr 2) 1 0 ''alpha-omega'')) ! 0) () = 1
   \<and> perturbation_operator_spec curl_id cross_std
        (const_arr 1) (const_arr 1) (const_arr 0)
        (const_arr 1) (const_arr 0) (const_arr 0)
        (const_arr 0) (const_arr 0) (const_arr 0)
        (const_arr 2) 1 0 ''alpha-omega'' 0 () = 2"
  by (simp add: perturbation_operator_def perturbation_operator_spec_def Let_def curl_id_def
      cross_std_def const_arr_def amul_def item_def B_r_def B_theta_def B_phi_def)

text \<open>
  Claim C5, at a failing input.  On the one-point grid, with the field \<open>(0, 0, 1)\<close>, no
  velocity, \<open>alpha = 2\<close>, \<open>Ra = 1\<close>, \<open>Ro = 0\<close>, a curl that returns its argument and \<open>a\<close> bound
  to \<open>1\<close>, the radial output under \<open>alpha2-omega\<close> minus the one under \<open>alpha-omega\<close> is \<open>1\<close>,
  whereas the claimed difference \<open>Ra * curl(alpha * B)_phi\<close> is \<open>2\<close>.
\<close>

theorem C5_tag_difference_uses_a_not_alpha:
  "(projr (fst (perturbation_operator curl_id cross_std (const_arr 1)
        (const_arr 1) (const_arr 1) (const_arr 0)
        (const_arr 0) (const_arr 0) (const_arr 1)
        (const_arr 0) (const_arr 0) (const_arr 0)
        (const_arr 2) 1 0 ''alpha2-omega'')) ! 0) ()
   - (projr (fst (perturbation_operator curl_id cross_std (const_arr 1)
        (const_arr 1) (const_arr 1) (const_arr 0)
        (const_arr 0) (const_arr 0) (const_arr 1)
        (const_arr 0) (const_arr 0) (const_arr 0)
        (const_arr 2) 1 0 ''alpha-omega'')) ! 0) () = 1
   \<and> 1 * item (curl_id (const_arr 1) (const_arr 1) (const_arr 0)
        (amul (const_arr 2) (const_arr 0)) (amul (const_arr 2) (const_arr 0))
        (amul (const_arr 2) (const_arr 1))) 2 () = 2"
  by (simp add: perturbation_operator_def Let_def curl_id_def
      cross_std_def const_arr_def amul_def item_def B_r_def B_theta_def B_phi_def)

text \<open>
  Under an unsupported tag the operator proper, with its helpers given, raises the
  configuration error in the first round of the loop, after the three helper calls.
\<close>

lemma perturbation_operator_invalid_tag:
  assumes "dynamo_type \<noteq> ''alpha-omega''" and "dynamo_type \<noteq> ''alpha2-omega''"
  shows "perturbation_operator curl_spherical cross a r theta phi Br Bt Bp Vr Vt Vp alpha Ra Ro
           dynamo_type
         = (Inl (AssertionError (''Invalid option: dynamo_type='' @ dynamo_type)),
            [Curl_spherical, Cross, Curl_spherical])"
  using assms by (simp add: perturbation_operator_def Let_def)

text \<open>In the module as the source file has it, every call ends at the first name looked up.\<close>

lemma perturbation_operator_call_shipped:
  "perturbation_operator_call shipped_module r theta phi Br Bt Bp Vr Vt Vp alpha Ra Ro dynamo_type
     = (Inl (NameError ''curl_spherical''), [])"
  by (simp add: perturbation_operator_call_def shipped_module_def)

text \<open>Whatever the module binds, an unsupported tag yields no result.\<close>

lemma perturbation_operator_call_no_result:
  assumes "dynamo_type \<noteq> ''alpha-omega''" and "dynamo_type \<noteq> ''alpha2-omega''"
  shows "isl (fst (perturbation_operator_call M r theta phi Br Bt Bp Vr Vt Vp alpha Ra Ro
                     dynamo_type))"
  using assms
  by (simp add: perturbation_operator_call_def perturbation_operator_def Let_def
      split: option.splits)


text \<open>With both dynamo numbers zero the operator itself returns three zero arrays.\<close>

lemma perturbation_operator_zero_numbers:
  assumes "dynamo_type = ''alpha-omega'' \<or> dynamo_type = ''alpha2-omega''"
  shows "fst (perturbation_operator curl_spherical cross a r theta phi Br Bt Bp Vr Vt Vp
                alpha 0 0 dynamo_type) = Inr [\<lambda>p. 0, \<lambda>p. 0, \<lambda>p. 0]"
  using assms by (auto simp add: perturbation_operator_def Let_def)

section \<open>Properties of the Galerkin coefficient solver\<close>

lemma upt3: "[0..<3] = [0, 1, 2]"
  by code_simp

lemma upt2: "[0..<2] = [0, 1]"
  by code_simp

lemma upt13: "[Suc 0..<3] = [1, 2]"
  by code_simp

lemma replicate2: "replicate 2 x = [x, x]"
  by (simp add: numeral_2_eq_2)






lemma mat_set_other:
  assumes "mat_set Wij i i v = Inr Wij'" and "t \<noteq> i"
  shows "Wij' ! t = Wij ! t"
  using assms by (auto simp add: mat_set_def split: if_splits)

lemma mat_set_same:
  assumes "mat_set Wij i i v = Inr Wij'"
  shows "Wij' ! i ! i = v"
  using assms by (auto simp add: mat_set_def split: if_splits)

lemma diag_loop_keeps:
  "diag_loop is gamma Wij = Inr Wij' \<Longrightarrow> t \<notin> set is \<Longrightarrow> Wij' ! t = Wij ! t"
proof (induction "is" arbitrary: Wij)
  case Nil
  then show ?case by simp
next
  case (Cons i "is")
  from Cons.prems(1) obtain W1 where
    s: "mat_set Wij i i (gamma ! i) = Inr W1" and rest: "diag_loop is gamma W1 = Inr Wij'"
    by (auto split: if_splits sum.splits)
  from Cons.prems(2) have "t \<noteq> i" and "t \<notin> set is" by auto
  with Cons.IH [OF rest] mat_set_other [OF s] show ?case by simp
qed

lemma diag_loop_sets:
  "diag_loop is gamma Wij = Inr Wij' \<Longrightarrow> distinct is \<Longrightarrow> t \<in> set is
     \<Longrightarrow> Wij' ! t ! t = gamma ! t"
proof (induction "is" arbitrary: Wij)
  case Nil
  then show ?case by simp
next
  case (Cons i "is")
  from Cons.prems(1) obtain W1 where
    s: "mat_set Wij i i (gamma ! i) = Inr W1" and rest: "diag_loop is gamma W1 = Inr Wij'"
    by (auto split: if_splits sum.splits)
  show ?case
  proof (cases "t = i")
    case True
    with Cons.prems(2) have "t \<notin> set is" by simp
    from diag_loop_keeps [OF rest this] mat_set_same [OF s] True show ?thesis by simp
  next
    case False
    with Cons.prems have "distinct is" and "t \<in> set is" by auto
    from Cons.IH [OF rest this] show ?thesis .
  qed
qed

text \<open>Under a supported tag the operator returns for every mode, and its outputs are not read again.\<close>

lemma perturbation_operator_valid_tag:
  assumes "dynamo_type = ''alpha-omega'' \<or> dynamo_type = ''alpha2-omega''"
  shows "\<exists>WB. fst (perturbation_operator curl_spherical cross a r theta phi Br Bt Bp Vr Vt Vp
                     alpha Ra Ro dynamo_type) = Inr WB"
  using assms by (auto simp add: perturbation_operator_def Let_def)

lemma WBmodes_loop_returns:
  assumes "\<And>Bmode. \<exists>WB. fst (pert Bmode) = Inr WB"
  shows "\<exists>WBmodes'. WBmodes_loop Bmodes pert WBmodes = Inr WBmodes'"
proof (induction Bmodes arbitrary: WBmodes)
  case Nil
  show ?case by simp
next
  case (Cons Bmode rest)
  from assms obtain WB where "fst (pert Bmode) = Inr WB" by blast
  with Cons.IH show ?case by simp
qed

lemma Galerkin_valid_tag:
  assumes "dynamo_type = ''alpha-omega'' \<or> dynamo_type = ''alpha2-omega''"
  shows "Galerkin_expansion_coefficients G galerkin_grid symmetric dynamo_type n_free_decay_modes
           return_matrix function_V function_alpha =
     (let Bmodes = map (\<lambda>imode. G_get_mode G (grid_r_spherical galerkin_grid)
                 (grid_theta galerkin_grid) (grid_phi galerkin_grid) imode (G_symmetry G))
                 [1..<G_nmodes G + 1]
      in case offdiag_rows [0..<n_free_decay_modes] [0..<n_free_decay_modes]
                     (coupling_integral G galerkin_grid (\<lambda>p. sin (grid_theta galerkin_grid p))
                        (if Bmodes = [] then None else Some (last Bmodes)))
                     (replicate (G_nmodes G) (replicate (G_nmodes G) 0)) of
                Inl e \<Rightarrow> Inl e
              | Inr Wij \<Rightarrow>
                  (case diag_loop [0..<n_free_decay_modes] (G_gamma G) Wij of
                     Inl e \<Rightarrow> Inl e
                   | Inr Wij' \<Rightarrow>
                       Inr (G_eig G Wij', if return_matrix then Some Wij' else None)))"
proof -
  let ?V = "function_V (grid_r_spherical galerkin_grid) (grid_theta galerkin_grid)
              (grid_phi galerkin_grid)"
  let ?pert = "\<lambda>Bmode. perturbation_operator (G_curl_spherical G) (G_cross G) (G_a G)
                 (grid_r_spherical galerkin_grid) (grid_theta galerkin_grid)
                 (grid_phi galerkin_grid)
                 (item Bmode 0) (item Bmode 1) (item Bmode 2)
                 (item ?V 0) (item ?V 1) (item ?V 2)
                 (function_alpha (grid_r_spherical galerkin_grid) (grid_theta galerkin_grid)
                    (grid_phi galerkin_grid))
                 (G_Ra G) (G_Ro G) dynamo_type"
  have "\<And>Bmode. \<exists>WB. fst (?pert Bmode) = Inr WB"
    using perturbation_operator_valid_tag [OF assms] by blast
  from WBmodes_loop_returns [of ?pert, OF this]
  obtain WBmodes where
    "WBmodes_loop (map (\<lambda>imode. G_get_mode G (grid_r_spherical galerkin_grid)
         (grid_theta galerkin_grid) (grid_phi galerkin_grid) imode (G_symmetry G))
         [1..<G_nmodes G + 1]) ?pert [] = Inr WBmodes"
    by blast
  then show ?thesis
    by (simp add: Galerkin_expansion_coefficients_def Let_def)
qed

lemma coupling_integral_ignores_dynamo_numbers:
  "coupling_integral (G\<lparr>G_Ra := Ra, G_Ro := Ro\<rparr>) = coupling_integral G"
  by (intro ext) (simp add: coupling_integral_def split: option.splits sum.splits)

text \<open>
  The matrix the solver builds does not depend on the dynamo numbers: the integrand of line
  210 reads \<open>Bmode\<close> and \<open>WBmode\<close>, not the list \<open>WBmodes\<close> that the operator filled.
\<close>

lemma Galerkin_ignores_dynamo_numbers:
  assumes "dynamo_type = ''alpha-omega'' \<or> dynamo_type = ''alpha2-omega''"
  shows "Galerkin_expansion_coefficients (G\<lparr>G_Ra := Ra, G_Ro := Ro\<rparr>) galerkin_grid symmetric
           dynamo_type n_free_decay_modes return_matrix function_V function_alpha
         = Galerkin_expansion_coefficients G galerkin_grid symmetric
           dynamo_type n_free_decay_modes return_matrix function_V function_alpha"
  by (simp add: Galerkin_valid_tag [OF assms] coupling_integral_ignores_dynamo_numbers
      split: sum.splits)

text \<open>The small run: every coupling integral is \<open>24 * pi\<close>, whatever the dynamo numbers.\<close>

lemma example_entry:
  "coupling_integral (example_globals Ra Ro) example_grid (\<lambda>p. 1)
     (Some ((\<lambda>p. 1), (\<lambda>p. 1), (\<lambda>p. 1))) i j = (if 3 \<le> i then Inl IndexError else Inr (24 * pi))"
  by (simp add: coupling_integral_def example_globals_def example_grid_def integrate_volume_def
      integrate_phi_def integrate_theta_def integrate_r_def simpson_def upt3 item_def
      B_r_def B_theta_def B_phi_def)

lemma example_modes:
  "G_nmodes (example_globals Ra Ro) = 2"
  "G_gamma (example_globals Ra Ro) = [- 10, - 33]"
  "G_eig (example_globals Ra Ro) Wij = ()"
  "G_get_mode (example_globals Ra Ro) r theta phi imode symmetry = ((\<lambda>p. 1), (\<lambda>p. 1), (\<lambda>p. 1))"
  "grid_theta example_grid = (\<lambda>p. pi / 2)"
  by (simp_all add: example_globals_def example_grid_def)

lemma example_run:
  "Galerkin_expansion_coefficients (example_globals Ra Ro) example_grid False ''alpha-omega'' 2 True
     example_V example_alpha
   = Inr ((), Some [[- 10, 24 * pi], [24 * pi, - 33]])"
  by (simp add: Galerkin_valid_tag Let_def example_modes upt2 upt13 example_entry
      mat_add_def mat_set_def replicate2)

text \<open>
  When the solver, asked for the matrix, returns, the entries \<open>Wij[i,i]\<close> with
  \<open>i < n_free_decay_modes\<close> are the supplied \<open>gamma[i]\<close>: the last loop writes them.
\<close>

lemma Galerkin_diagonal_when_returned:
  assumes run: "Galerkin_expansion_coefficients G galerkin_grid symmetric dynamo_type
                  n_free_decay_modes True function_V function_alpha = Inr (val_vec, matrix)"
    and i: "i < n_free_decay_modes"
  shows "\<exists>Wij. matrix = Some Wij \<and> Wij ! i ! i = G_gamma G ! i"
proof -
  from run obtain W1 Wij where
    d: "diag_loop [0..<n_free_decay_modes] (G_gamma G) W1 = Inr Wij" and m: "matrix = Some Wij"
    by (auto simp add: Galerkin_expansion_coefficients_def Let_def split: sum.splits)
  from i have "i \<in> set [0..<n_free_decay_modes]" by simp
  from diag_loop_sets [OF d _ this] m show ?thesis by simp
qed

text \<open>
  From four modes on the solver never returns: in the round \<open>i = 3\<close> line 210 indexes
  \<open>Bmode\<close>, a list of three component arrays, with \<open>3\<close>.
\<close>

lemma coupling_integral_mode_3:
  "isl (coupling_integral G galerkin_grid sintheta Bmode 3 j)"
  by (simp add: coupling_integral_def split: option.splits)

lemma offdiag_row_raises:
  "j \<in> set js \<Longrightarrow> j \<noteq> i \<Longrightarrow> isl (entry i j) \<Longrightarrow> isl (offdiag_row js i entry Wij)"
proof (induction js arbitrary: Wij)
  case Nil
  then show ?case by simp
next
  case (Cons j' js)
  then show ?case by (auto split: sum.splits)
qed

lemma offdiag_rows_raises:
  "i \<in> set is \<Longrightarrow> (\<And>Wij. isl (offdiag_row js i entry Wij))
     \<Longrightarrow> isl (offdiag_rows is js entry Wij)"
proof (induction "is" arbitrary: Wij)
  case Nil
  then show ?case by simp
next
  case (Cons i' "is")
  show ?case
  proof (cases "offdiag_row js i' entry Wij")
    case (Inl e)
    then show ?thesis by simp
  next
    case (Inr Wij')
    have "i \<noteq> i'"
    proof
      assume "i = i'"
      with Cons.prems(2) [of Wij] Inr show False by simp
    qed
    with Cons.prems(1) have "i \<in> set is" by simp
    from Cons.IH [OF this Cons.prems(2)] Inr show ?thesis by simp
  qed
qed

lemma isl_case_raised: "isl r \<Longrightarrow> isl (case r of Inl e \<Rightarrow> Inl e | Inr x \<Rightarrow> f x)"
  by (cases r) simp_all

lemma isl_case_each: "(\<And>x. isl (f x)) \<Longrightarrow> isl (case r of Inl e \<Rightarrow> Inl e | Inr x \<Rightarrow> f x)"
  by (cases r) simp_all

lemma Galerkin_never_returns_from_4_modes:
  assumes "4 \<le> n_free_decay_modes"
  shows "isl (Galerkin_expansion_coefficients G galerkin_grid symmetric dynamo_type
                n_free_decay_modes return_matrix function_V function_alpha)"
proof -
  have m: "(3::nat) \<in> set [0..<n_free_decay_modes]" "(0::nat) \<in> set [0..<n_free_decay_modes]"
    using assms by simp_all
  have row: "isl (offdiag_row [0..<n_free_decay_modes] 3
                 (coupling_integral G galerkin_grid sintheta Bmode) Wij)" for sintheta Bmode Wij
    by (rule offdiag_row_raises [OF m(2)]) (simp_all add: coupling_integral_mode_3)
  have rows: "isl (offdiag_rows [0..<n_free_decay_modes] [0..<n_free_decay_modes]
               (coupling_integral G galerkin_grid sintheta Bmode) Wij)" for sintheta Bmode Wij
    by (rule offdiag_rows_raises [OF m(1)]) (rule row)
  show ?thesis
    unfolding Galerkin_expansion_coefficients_def Let_def
    by (intro isl_case_each isl_case_raised rows)
qed





text \<open>
  Claim C6, at a failing input.  On the small run with \<open>Ra = 0\<close> and \<open>Ro = 0\<close> the solver
  returns a matrix whose off-diagonal entries are \<open>24 * pi\<close>, not \<open>0\<close>: the entries are
  integrals of \<open>Bmode[i][k] * WBmode[j][k]\<close>, and the operator's outputs, which are zero
  here, are never read.
\<close>

theorem C6_offdiagonal_nonzero_without_dynamo:
  "Galerkin_expansion_coefficients (example_globals 0 0) example_grid False ''alpha-omega'' 2 True
     example_V example_alpha
     = Inr ((), Some [[- 10, 24 * pi], [24 * pi, - 33]])
   \<and> [[- 10, 24 * pi], [24 * pi, - 33]] ! 0 ! 1 \<noteq> (0 :: real)"
  using example_run [of 0 0] by simp

text \<open>
  The integration of one integrand: with \<open>dphi\<close> zero the slice at phi index \<open>0\<close> times
  \<open>2 * pi\<close>, otherwise \<open>simps\<close> over phi; then \<open>simps\<close> over theta and over r.
\<close>

lemma integrate_volume_branches:
  "(dphi = 0 \<and> 0 < n_phi \<longrightarrow>
      integrate_volume simps dphi dtheta dr (n_r, n_theta, n_phi) integrand =
        Inr (simps (map (\<lambda>x. simps (map (\<lambda>y. integrand (x, y, 0) * 2 * pi) [0..<n_theta]) dtheta)
                      [0..<n_r]) dr))
   \<and> (dphi \<noteq> 0 \<longrightarrow>
      integrate_volume simps dphi dtheta dr (n_r, n_theta, n_phi) integrand =
        Inr (simps (map (\<lambda>x. simps (map (\<lambda>y. simps (map (\<lambda>z. integrand (x, y, z)) [0..<n_phi]) dphi)
                                       [0..<n_theta]) dtheta)
                      [0..<n_r]) dr))"
  by (simp add: integrate_volume_def integrate_phi_def integrate_theta_def integrate_r_def)




section \<open>Properties of \<open>get_B_field\<close>\<close>

lemma class_attr_get_B_field: "class_attr ''get_B_field'' = Some Def_get_B_field_line_236"
  by (simp add: class_attr_def B_generator_halo_body_def)

text \<open>The definition of line 41, were it the one called, raises after building the grid.\<close>

lemma get_B_field_line_41_raises:
  "get_B_field_line_41 parse_with_defaults [] =
     (Inl NotImplementedError,
      [\<lparr>req_box = [(0.0001, 2.0), (0.1, pi), (0.0, 0.0)],
        req_resolution = [PNat 250, PNat 250, PNat 1],
        req_grid_type = ''spherical''\<rparr>])"
  by (simp add: get_B_field_line_41_def parse_with_defaults_def builtin_parameter_defaults_def)

text \<open>The call never raises the not-implemented error and never builds a grid.\<close>

lemma call_get_B_field_never_not_implemented:
  "fst (call_get_B_field parse build kwargs) \<noteq> Inl NotImplementedError
   \<and> snd (call_get_B_field parse build kwargs) = []"
  by (simp add: call_get_B_field_def class_attr_get_B_field get_B_field_line_236_def Let_def
      split: option.splits)

text \<open>
  Claim C9, at a failing input.  The class body defines \<open>get_B_field\<close> twice, and the second
  definition (line 236) replaces the first.  Called without keyword arguments on a generator
  with the built-in defaults, the method looks up \<open>disk_component_normalization\<close>, which the
  defaults do not hold: the call raises a key error, constructs no Galerkin grid and does not
  raise the not-implemented error.
\<close>

theorem C9_second_definition_is_called:
  "call_get_B_field parse_with_defaults build [] =
     (Inl (KeyError ''disk_component_normalization''), [])"
  by (simp add: call_get_B_field_def class_attr_get_B_field get_B_field_line_236_def
      parse_with_defaults_def builtin_parameter_defaults_def)

end
